theory Spec2Isabelle
  imports Main "HOL-Library.AList"
begin

section \<open>Server-side rendering: source/server/render.js\<close>

text \<open>
  The file exports one asynchronous function, called \<open>render\<close> here, and a helper
  \<open>normalizeRedirect\<close>. A rejected promise and a thrown exception are the same thing to
  the \<open>async\<close> function, so both are the left injection of a sum; a resolved promise is
  the right injection. The type variable \<open>'v\<close> stands for the JavaScript values the
  function only passes on (routes, components, store state, cookies to set, values
  thrown by the collaborators).
\<close>

subsection \<open>Data\<close>

text \<open>\<open>Error m\<close> is \<open>new Error(m)\<close>; \<open>Thrown v\<close> is any other value a collaborator throws or
  rejects with.\<close>

datatype 'v error = Error string | Thrown 'v

text \<open>
  Modelled from the spec: the Location of source/location.js, which is not among the
  sources. render.js reads only \<open>pathname\<close>; the spec names the path and the query, and
  speaks of relative targets, so a location carries an optional origin (absent for a
  relative target).
\<close>

record location =
  origin :: "string option"
  pathname :: string
  query :: string

text \<open>A configuration value that is either given literally or computed from the path and
  the parameters (\<open>typeof x === 'function' ? x(path, parameters) : x\<close>).\<close>

datatype ('p, 'a) literal_or_function = Literal 'a | Function "string \<Rightarrow> 'p \<Rightarrow> 'a"

record 'v store =
  getState :: 'v

text \<open>The \<open>...parameters\<close> rest object of the initializer's result; the catch block reads
  \<open>parameters.store.getState\<close>.\<close>

record 'v parameters =
  store :: "'v store"

record 'v initialized =
  cookies :: "'v list"
  generateJavascript :: string
  parameters :: "'v parameters"

record assets =
  entries :: "string list option"
  javascript :: "(string \<times> string) list option"

record 'v html =
  head :: "('v parameters, string option) literal_or_function"
  bodyStart :: "('v parameters, string option) literal_or_function"
  bodyEnd :: "('v parameters, string option) literal_or_function"

text \<open>The second argument of the exported function. \<open>renderContent\<close> is compared with
  \<open>false\<close> only, so it has three values: absent, true and false. \<open>cookies\<close> is the
  accessor's \<open>get\<close>.\<close>

record 'v options =
  initialize :: 'v
  assets :: "('v parameters, assets) literal_or_function"
  proxy :: 'v
  url :: string
  renderContent :: "bool option"
  html :: "'v html option"
  cookies :: "string \<Rightarrow> string option"
  locales :: "string list"

record authentication =
  protectedCookie :: "string option"

text \<open>
  What \<open>onError\<close> receives besides the error. The \<open>redirect\<close> function of the object is
  modelled by \<open>onErrorParameters_redirect\<close> below: it returns nothing and its variable is
  private to the catch block, so all a handler can do with it is call it with some
  targets, in some order. A run of the handler is therefore the list of targets it
  passed to \<open>redirect\<close>, and the value it threw, if it threw.
\<close>

record 'v onErrorParameters =
  server :: bool
  path :: string
  url :: string
  getState :: 'v

record 'v handler_run =
  redirect_calls :: "string list"
  raises :: "'v error option"

record 'v settings =
  routes :: 'v
  container :: 'v
  authentication :: "authentication option"
  onError :: "('v error \<Rightarrow> 'v onErrorParameters \<Rightarrow> 'v handler_run) option"
  basename :: "string option"

text \<open>What the page renderer (\<open>reduxRender\<close>) resolves to. A JavaScript object has each
  key once; \<open>time\<close> lists the keys of the timing object in their order.\<close>

record 'v rendered =
  redirect :: "location option"
  route :: string
  status :: nat
  content :: 'v
  meta :: "(string \<times> string) list"
  containerProps :: 'v
  time :: "(string \<times> nat) list"

text \<open>React elements and Node streams are built by libraries; they are kept as the
  terms that built them. \<open>stream_text\<close> reads a stream to its end, given the markup React
  produces for an element.\<close>

datatype 'v element = createElement 'v 'v 'v

datatype 'v stream =
    createStringStream string
  | renderToNodeStream "'v element"
  | combineStreams "'v stream list"

fun stream_text :: "('v element \<Rightarrow> string) \<Rightarrow> 'v stream \<Rightarrow> string" where
  "stream_text markup (createStringStream s) = s"
| "stream_text markup (renderToNodeStream e) = markup e"
| "stream_text markup (combineStreams ss) = concat (map (stream_text markup) ss)"

text \<open>The value the exported function resolves to: \<open>{ redirect }\<close>, or the content
  object, whose \<open>time\<close> key is absent in the static-shell branch.\<close>

record 'v content_result =
  route :: string
  status :: nat
  content :: "'v stream"
  time :: "(string \<times> nat) list option"
  cookies :: "'v list"

datatype 'v result = RedirectResult string | ContentResult "'v content_result"

text \<open>The calls of the collaborators that a claim speaks of, in the order they are made.\<close>

datatype 'v event =
    Called_reduxRender
  | Called_renderToNodeStream "'v element"
  | Called_onError "'v error" "'v onErrorParameters"

text \<open>
  The imported functions of the repository that are not among the sources, taken as
  parameters. \<open>initializeTimer\<close> is the number \<open>initializeTimer()\<close> returns inside the
  \<open>try\<close> block. The arguments of \<open>reduxInitialize\<close> after the settings are
  \<open>protected_cookie_value, proxy, cookies, initialize, url\<close>; those of
  \<open>render_before_content\<close> are \<open>assets, locale, meta, head, bodyStart\<close>; those of
  \<open>render_after_content\<close> are \<open>javascript, assets, locale, bodyEnd,
  protected_cookie_value, contentNotRendered\<close>; those of \<open>reduxRender\<close> are the parameters
  and the routes; \<open>getLocationUrl\<close> takes the location and the \<open>basename\<close> option.
\<close>

record 'v environment =
  normalizeSettings :: "'v settings \<Rightarrow> 'v error + 'v settings"
  reduxInitialize :: "'v settings \<Rightarrow> string option \<Rightarrow> 'v \<Rightarrow> (string \<Rightarrow> string option)
    \<Rightarrow> 'v \<Rightarrow> string \<Rightarrow> 'v error + 'v initialized"
  initializeTimer :: nat
  parseLocation :: "string \<Rightarrow> location"
  getLocationUrl :: "location \<Rightarrow> string option \<Rightarrow> string"
  generateMetaTagsMarkup :: "(string \<times> string) list \<Rightarrow> string list"
  render_before_content :: "assets \<Rightarrow> string option \<Rightarrow> string \<Rightarrow> string option
    \<Rightarrow> string option \<Rightarrow> string"
  render_after_content :: "string \<Rightarrow> assets \<Rightarrow> string option \<Rightarrow> string option
    \<Rightarrow> string option \<Rightarrow> bool \<Rightarrow> string"
  reduxRender :: "'v parameters \<Rightarrow> 'v \<Rightarrow> 'v error + 'v rendered"

subsection \<open>Small steps of the function\<close>

text \<open>Lines 38-42: the protected cookie is read when \<open>authentication\<close> and its
  \<open>protectedCookie\<close> are truthy (a non-empty name); otherwise the value stays undefined.\<close>

definition protected_cookie_value :: "'v settings \<Rightarrow> (string \<Rightarrow> string option) \<Rightarrow> string option" where
  "protected_cookie_value stgs cookies_get =
     (case authentication stgs of
        None \<Rightarrow> None
      | Some a \<Rightarrow>
          (case protectedCookie a of
             None \<Rightarrow> None
           | Some name \<Rightarrow> if name = [] then None else cookies_get name))"

text \<open>\<open>typeof x === 'function' ? x(path, parameters) : x\<close> (lines 84-89).\<close>

definition normalize_modifier :: "string \<Rightarrow> 'p \<Rightarrow> ('p, 'a) literal_or_function \<Rightarrow> 'a" where
  "normalize_modifier pth params x =
     (case x of Function f \<Rightarrow> f pth params | Literal a \<Rightarrow> a)"

text \<open>The default \<open>html = {}\<close> of the destructured argument (line 20).\<close>

definition html_or_default :: "'v html option \<Rightarrow> 'v html" where
  "html_or_default h =
     (case h of
        None \<Rightarrow> \<lparr>head = Literal None, bodyStart = Literal None, bodyEnd = Literal None\<rparr>
      | Some x \<Rightarrow> x)"

text \<open>\<open>assets.javascript && assets.javascript.main\<close> (line 93): the \<open>main\<close> key is there and
  its value is truthy, that is a non-empty string.\<close>

definition has_main :: "assets \<Rightarrow> bool" where
  "has_main a =
     (case javascript a of
        None \<Rightarrow> False
      | Some js \<Rightarrow> (case map_of js ''main'' of None \<Rightarrow> False | Some u \<Rightarrow> u \<noteq> []))"

definition entries_required :: string where
  \<open>entries_required = ''"assets.entries[]" configuration parameter is required: it includes all Webpack "entries" for which javascripts and styles must be included on a server-rendered page. If you didn't set up any custom "entries" in Webpack configuration then the default Webpack entry is called "main". You don't seem to have the "main" entry so the server doesn't know which assets to include on the page ("['main']" is the default value for "assets.entries").''\<close>

text \<open>Lines 91-98. An array is truthy even when empty, so \<open>!assets.entries\<close> holds only
  when the key is absent. The assignment \<open>assets.entries = ['main']\<close> is to the resolved
  object, which is what the two template functions then receive.\<close>

definition default_entries :: "assets \<Rightarrow> 'v error + assets" where
  "default_entries a =
     (case entries a of
        Some es \<Rightarrow> Inr a
      | None \<Rightarrow>
          if has_main a then Inr (a\<lparr>entries := Some [''main'']\<rparr>)
          else Inl (Error entries_required))"

text \<open>\<open>locales[0]\<close> (line 101): undefined for an empty list.\<close>

definition preferred_locale :: "string list \<Rightarrow> string option" where
  "preferred_locale ls = (case ls of [] \<Rightarrow> None | l # _ \<Rightarrow> Some l)"

text \<open>
  \<open>generateOuterHtml(meta)\<close>, lines 78-125. It is a closure over \<open>html\<close>, \<open>assets\<close>,
  \<open>locales\<close>, \<open>path\<close>, \<open>parameters\<close>, \<open>generateJavascript\<close>, \<open>protected_cookie_value\<close> and the
  variable \<open>renderContent\<close>, whose current value is the argument \<open>rc\<close>: the static-shell
  branch assigns \<open>false\<close> to it before the call. The function is called at most once in
  a render, so its assignment to the captured \<open>assets\<close> is not seen by a second call.
\<close>

definition generateOuterHtml ::
  "'v environment \<Rightarrow> 'v options \<Rightarrow> string \<Rightarrow> 'v initialized \<Rightarrow> string option \<Rightarrow> bool option
    \<Rightarrow> (string \<times> string) list \<Rightarrow> 'v error + string \<times> string" where
  "generateOuterHtml env opts pth init pcv rc mta =
     (let h = html_or_default (html opts);
          hd_markup = normalize_modifier pth (parameters init) (head h);
          body_start = normalize_modifier pth (parameters init) (bodyStart h);
          body_end = normalize_modifier pth (parameters init) (bodyEnd h);
          resolved = normalize_modifier pth (parameters init) (assets opts)
      in case default_entries resolved of
           Inl e \<Rightarrow> Inl e
         | Inr a \<Rightarrow>
             let locale = preferred_locale (locales opts);
                 before_content =
                   render_before_content env a locale (concat (generateMetaTagsMarkup env mta))
                     hd_markup body_start;
                 after_content =
                   render_after_content env (generateJavascript init) a locale body_end pcv
                     (rc = Some False)
             in Inr (before_content, after_content))"

text \<open>\<open>path.replace(/\/$/, '')\<close> (line 129): one slash at the very end is dropped.\<close>

definition strip_trailing_slash :: "string \<Rightarrow> string" where
  "strip_trailing_slash p = (if p \<noteq> [] \<and> last p = CHR ''/'' then butlast p else p)"

text \<open>\<open>array.splice(index, 0, element)\<close> (line 177): the start index is clamped to the
  length, as \<open>take\<close> and \<open>drop\<close> do.\<close>

definition array_splice :: "nat \<Rightarrow> 'a \<Rightarrow> 'a list \<Rightarrow> 'a list" where
  "array_splice i x xs = take i xs @ x # drop i xs"

text \<open>\<open>normalizeRedirect\<close>, lines 225-229.\<close>

definition normalizeRedirect :: "'v environment \<Rightarrow> location \<Rightarrow> string option \<Rightarrow> string" where
  "normalizeRedirect env rdr bn = getLocationUrl env rdr bn"

text \<open>
  The \<open>redirect\<close> function handed to \<open>onError\<close> (lines 201-206), as a step on the variable
  \<open>redirect\<close> of the catch block: undefined is \<open>None\<close>, and a parsed location is an
  object, hence truthy. \<open>requested_redirect\<close> is the variable after the handler made the
  calls \<open>tos\<close> in this order.
\<close>

definition onErrorParameters_redirect ::
  "'v environment \<Rightarrow> string \<Rightarrow> location option \<Rightarrow> location option" where
  "onErrorParameters_redirect env to rdr =
     (case rdr of None \<Rightarrow> Some (parseLocation env to) | Some l \<Rightarrow> Some l)"

definition requested_redirect :: "'v environment \<Rightarrow> string list \<Rightarrow> location option" where
  "requested_redirect env tos = foldl (\<lambda>rdr to. onErrorParameters_redirect env to rdr) None tos"

subsection \<open>The exported function\<close>

text \<open>
  The \<open>try\<close> block, lines 73-190, from the reading of the timer to the \<open>return\<close>. The
  result is what the block returns or throws, with the collaborator calls made on the
  way. \<open>streams.length / 2\<close> is 1 for the two-element array.
\<close>

definition render_try ::
  "'v environment \<Rightarrow> 'v settings \<Rightarrow> 'v options \<Rightarrow> 'v initialized \<Rightarrow> string option \<Rightarrow> string
    \<Rightarrow> ('v error + 'v result) \<times> 'v event list" where
  "render_try env stgs opts init pcv pth =
     (let initializeTime = initializeTimer env in
      if strip_trailing_slash pth = ''/react-website-base'' then
        (case generateOuterHtml env opts pth init pcv (Some False) [] of
           Inl e \<Rightarrow> (Inl e, [])
         | Inr (before_content, after_content) \<Rightarrow>
             (Inr (ContentResult
                \<lparr>route = ''/react-website-base'',
                 status = 200,
                 content = createStringStream (before_content @ after_content),
                 time = None,
                 cookies = []\<rparr>), []))
      else
        (case reduxRender env (parameters init) (routes stgs) of
           Inl e \<Rightarrow> (Inl e, [Called_reduxRender])
         | Inr r \<Rightarrow>
             (case rendered.redirect r of
                Some rdr \<Rightarrow>
                  (Inr (RedirectResult (normalizeRedirect env rdr (basename stgs))),
                   [Called_reduxRender])
              | None \<Rightarrow>
                  (case generateOuterHtml env opts pth init pcv (renderContent opts) (meta r) of
                     Inl e \<Rightarrow> (Inl e, [Called_reduxRender])
                   | Inr (before_content, after_content) \<Rightarrow>
                       let streams =
                             [createStringStream before_content, createStringStream after_content];
                           pageElement =
                             createElement (container stgs) (containerProps r) (rendered.content r)
                       in (Inr (ContentResult
                             \<lparr>route = rendered.route r,
                              status = rendered.status r,
                              content = combineStreams
                                (if renderContent opts \<noteq> Some False
                                 then array_splice (length streams div 2) (renderToNodeStream pageElement)
                                        streams
                                 else streams),
                              time = Some (AList.update ''initialize'' initializeTime
                                             (rendered.time r)),
                              cookies = initialized.cookies init\<rparr>),
                           Called_reduxRender #
                             (if renderContent opts \<noteq> Some False
                              then [Called_renderToNodeStream pageElement] else []))))))"

text \<open>
  The \<open>catch\<close> block, lines 191-222. \<open>make_onErrorParameters\<close> is the object of lines
  197-209 without its \<open>redirect\<close> function. The handler is called once; if it throws, that
  value leaves the \<open>async\<close> function, since nothing encloses the call.
\<close>

definition make_onErrorParameters ::
  "'v environment \<Rightarrow> 'v initialized \<Rightarrow> location \<Rightarrow> string \<Rightarrow> 'v onErrorParameters" where
  "make_onErrorParameters env init loc pth =
     \<lparr>server = True,
      path = pth,
      url = getLocationUrl env loc None,
      getState = store.getState (store (parameters init))\<rparr>"

definition render_catch ::
  "'v environment \<Rightarrow> 'v settings \<Rightarrow> 'v initialized \<Rightarrow> location \<Rightarrow> string \<Rightarrow> 'v error
    \<Rightarrow> ('v error + 'v result) \<times> 'v event list" where
  "render_catch env stgs init loc pth err =
     (case onError stgs of
        None \<Rightarrow> (Inl err, [])
      | Some handler \<Rightarrow>
          let onErrorParameters = make_onErrorParameters env init loc pth;
              run = handler err onErrorParameters;
              rdr = requested_redirect env (redirect_calls run)
          in (case raises run of
                Some thrown \<Rightarrow> (Inl thrown, [Called_onError err onErrorParameters])
              | None \<Rightarrow>
                  (case rdr of
                     Some l \<Rightarrow>
                       (Inr (RedirectResult (normalizeRedirect env l (basename stgs))),
                        [Called_onError err onErrorParameters])
                   | None \<Rightarrow> (Inl err, [Called_onError err onErrorParameters]))))"

text \<open>The awaited call of lines 52-58, and \<open>path\<close> of lines 60-61.\<close>

definition initialize_state ::
  "'v environment \<Rightarrow> 'v settings \<Rightarrow> 'v options \<Rightarrow> 'v error + 'v initialized" where
  "initialize_state env stgs opts =
     reduxInitialize env stgs (protected_cookie_value stgs (options.cookies opts)) (proxy opts)
       (options.cookies opts) (initialize opts) (options.url opts)"

definition request_path :: "'v environment \<Rightarrow> 'v options \<Rightarrow> string" where
  "request_path env opts = pathname (parseLocation env (options.url opts))"

text \<open>
  The whole function, lines 14-223: settings are normalized, the protected cookie is
  read and the state is initialized outside the \<open>try\<close> block; an error there leaves the
  function at once.
\<close>

definition render ::
  "'v environment \<Rightarrow> 'v settings \<Rightarrow> 'v options \<Rightarrow> ('v error + 'v result) \<times> 'v event list" where
  "render env raw opts =
     (case normalizeSettings env raw of
        Inl e \<Rightarrow> (Inl e, [])
      | Inr stgs \<Rightarrow>
          (case initialize_state env stgs opts of
             Inl e \<Rightarrow> (Inl e, [])
           | Inr init \<Rightarrow>
               let loc = parseLocation env (options.url opts);
                   pth = request_path env opts;
                   pcv = protected_cookie_value stgs (options.cookies opts)
               in (case render_try env stgs opts init pcv pth of
                     (Inr r, evs) \<Rightarrow> (Inr r, evs)
                   | (Inl err, evs) \<Rightarrow>
                       (case render_catch env stgs init loc pth err of
                          (out, evs') \<Rightarrow> (out, evs @ evs')))))"

text \<open>
  Modelled from the spec: \<open>getLocationUrl\<close> of source/location.js, which is not among the
  sources. The spec says of it: a fully serialized URL string, with the basename
  prepended when the target is relative.
\<close>

definition spec_getLocationUrl :: "location \<Rightarrow> string option \<Rightarrow> string" where
  "spec_getLocationUrl loc bn =
     (case origin loc of
        Some og \<Rightarrow> og @ pathname loc @ query loc
      | None \<Rightarrow> (case bn of None \<Rightarrow> [] | Some b \<Rightarrow> b) @ pathname loc @ query loc)"

subsection \<open>A concrete request\<close>

text \<open>An instance of the collaborators, the settings and the options, on which the
  theorems below are exercised.\<close>

definition example_parseLocation :: "string \<Rightarrow> location" where
  "example_parseLocation u =
     \<lparr>origin = None,
      pathname = takeWhile (\<lambda>c. c \<noteq> CHR ''?'') u,
      query = dropWhile (\<lambda>c. c \<noteq> CHR ''?'') u\<rparr>"

definition example_initialized :: "string initialized" where
  "example_initialized =
     \<lparr>initialized.cookies = [''session=1''],
      generateJavascript = ''state'',
      parameters = \<lparr>store = \<lparr>store.getState = ''getState''\<rparr>\<rparr>\<rparr>"

definition example_rendered :: "string rendered" where
  "example_rendered =
     \<lparr>redirect = None,
      rendered.route = ''/items'',
      rendered.status = 200,
      rendered.content = ''Items'',
      meta = [(''title'', ''Items'')],
      containerProps = ''props'',
      rendered.time = [(''preload'', 3)]\<rparr>"

definition example_environment :: "string environment" where
  "example_environment =
     \<lparr>normalizeSettings = Inr,
      reduxInitialize = (\<lambda>stgs pcv prx cks ini u. Inr example_initialized),
      initializeTimer = 7,
      parseLocation = example_parseLocation,
      getLocationUrl = spec_getLocationUrl,
      generateMetaTagsMarkup = map (\<lambda>(k, v). k @ ''='' @ v),
      render_before_content = (\<lambda>a l m h b. ''<head>'' @ m @ ''</head>''),
      render_after_content =
        (\<lambda>js a l b pcv cnr. ''<script>'' @ js @ (if cnr then ''</script>-'' else ''</script>'')),
      reduxRender = (\<lambda>ps rts. Inr example_rendered)\<rparr>"

definition example_settings :: "string settings" where
  "example_settings =
     \<lparr>routes = ''routes'',
      container = ''Container'',
      authentication = None,
      onError = None,
      basename = Some ''/app''\<rparr>"

definition example_assets :: assets where
  "example_assets = \<lparr>entries = None, javascript = Some [(''main'', ''/main.js'')]\<rparr>"

definition example_options :: "string options" where
  "example_options =
     \<lparr>initialize = ''hook'',
      assets = Literal example_assets,
      proxy = ''proxy'',
      options.url = ''/items?page=2'',
      renderContent = None,
      html = None,
      options.cookies = (\<lambda>name. None),
      locales = [''en'']\<rparr>"

text \<open>Variations of the request: the static-shell path, assets with neither entries nor a
  main script (on an ordinary path and on the static-shell path), an initializer that rejects, a page renderer that rejects, one that
  redirects, and one whose timing object already has an \<open>initialize\<close> key.\<close>

definition static_options :: "string options" where
  "static_options = example_options\<lparr>options.url := ''/react-website-base/'',
     renderContent := Some True\<rparr>"

definition unconfigured_options :: "string options" where
  "unconfigured_options =
     example_options\<lparr>assets := Literal \<lparr>entries = None, javascript = None\<rparr>\<rparr>"

definition static_unconfigured_options :: "string options" where
  "static_unconfigured_options =
     unconfigured_options\<lparr>options.url := ''/react-website-base''\<rparr>"

definition offline_environment :: "string environment" where
  "offline_environment =
     example_environment
       \<lparr>reduxInitialize := (\<lambda>stgs pcv prx cks ini u. Inl (Error ''NetworkError''))\<rparr>"

definition rejecting_environment :: "string environment" where
  "rejecting_environment =
     example_environment\<lparr>reduxRender := (\<lambda>ps rts. Inl (Error ''render failed''))\<rparr>"

definition redirecting_environment :: "string environment" where
  "redirecting_environment =
     example_environment
       \<lparr>reduxRender := (\<lambda>ps rts. Inr (example_rendered
          \<lparr>redirect := Some \<lparr>origin = None, pathname = ''/foo'', query = []\<rparr>\<rparr>))\<rparr>"

definition timed_rendered :: "string rendered" where
  "timed_rendered = example_rendered\<lparr>rendered.time := [(''initialize'', 5)]\<rparr>"

definition timed_environment :: "string environment" where
  "timed_environment = example_environment\<lparr>reduxRender := (\<lambda>ps rts. Inr timed_rendered)\<rparr>"

text \<open>Three error handlers: one asks for two redirects and returns, one asks for a
  redirect and then throws, one throws without asking for a redirect.\<close>

definition login_handler :: "string error \<Rightarrow> string onErrorParameters \<Rightarrow> string handler_run" where
  "login_handler err ps = \<lparr>redirect_calls = [''/login'', ''/error''], raises = None\<rparr>"

definition failing_handler :: "string error \<Rightarrow> string onErrorParameters \<Rightarrow> string handler_run" where
  "failing_handler err ps =
     \<lparr>redirect_calls = [''/login''], raises = Some (Error ''handler failed'')\<rparr>"

definition silent_failing_handler ::
  "string error \<Rightarrow> string onErrorParameters \<Rightarrow> string handler_run" where
  "silent_failing_handler err ps =
     \<lparr>redirect_calls = [], raises = Some (Error ''handler failed'')\<rparr>"

definition handled_settings ::
  "(string error \<Rightarrow> string onErrorParameters \<Rightarrow> string handler_run) \<Rightarrow> string settings" where
  "handled_settings handler = example_settings\<lparr>onError := Some handler\<rparr>"

section \<open>Facts about the steps\<close>

lemma strip_trailing_slash_base:
  "strip_trailing_slash p = ''/react-website-base'' \<longleftrightarrow>
     p = ''/react-website-base'' \<or> p = ''/react-website-base/''"
proof
  assume h: "strip_trailing_slash p = ''/react-website-base''"
  show "p = ''/react-website-base'' \<or> p = ''/react-website-base/''"
  proof (cases "p \<noteq> [] \<and> last p = CHR ''/''")
    case True
    then have "p \<noteq> []" by simp
    then have "butlast p @ [last p] = p" by (rule append_butlast_last_id)
    moreover from True h have "butlast p = ''/react-website-base''"
      by (simp add: strip_trailing_slash_def)
    ultimately have "p = ''/react-website-base'' @ [CHR ''/'']" using True by simp
    then show ?thesis by simp
  next
    case False
    with h show ?thesis by (auto simp: strip_trailing_slash_def)
  qed
next
  assume "p = ''/react-website-base'' \<or> p = ''/react-website-base/''"
  then show "strip_trailing_slash p = ''/react-website-base''"
    by (auto simp: strip_trailing_slash_def)
qed

lemma generateOuterHtml_eq:
  "generateOuterHtml env opts pth init pcv rc mta =
     (case default_entries (normalize_modifier pth (parameters init) (assets opts)) of
        Inl e \<Rightarrow> Inl e
      | Inr as \<Rightarrow>
          Inr (render_before_content env as (preferred_locale (locales opts))
                 (concat (generateMetaTagsMarkup env mta))
                 (normalize_modifier pth (parameters init) (head (html_or_default (html opts))))
                 (normalize_modifier pth (parameters init) (bodyStart (html_or_default (html opts)))),
               render_after_content env (generateJavascript init) as (preferred_locale (locales opts))
                 (normalize_modifier pth (parameters init) (bodyEnd (html_or_default (html opts))))
                 pcv (rc = Some False)))"
  by (simp add: generateOuterHtml_def Let_def split: sum.splits)

lemma render_initialized:
  assumes "normalizeSettings env raw = Inr stgs" and "initialize_state env stgs opts = Inr init"
  shows "render env raw opts =
     (case render_try env stgs opts init (protected_cookie_value stgs (options.cookies opts))
             (request_path env opts) of
        (Inr r, evs) \<Rightarrow> (Inr r, evs)
      | (Inl err, evs) \<Rightarrow>
          (case render_catch env stgs init (parseLocation env (options.url opts))
                  (request_path env opts) err of
             (out, evs') \<Rightarrow> (out, evs @ evs')))"
  using assms by (simp add: render_def Let_def)

lemma requested_redirect_Some:
  "foldl (\<lambda>rdr to. onErrorParameters_redirect env to rdr) (Some l) tos = Some l"
  by (induction tos) (simp_all add: onErrorParameters_redirect_def)

lemma requested_redirect_Nil: "requested_redirect env [] = None"
  by (simp add: requested_redirect_def)

lemma requested_redirect_Cons:
  "requested_redirect env (to # tos) = Some (parseLocation env to)"
proof -
  have "onErrorParameters_redirect env to None = Some (parseLocation env to)"
    by (simp add: onErrorParameters_redirect_def)
  then show ?thesis
    unfolding requested_redirect_def foldl_Cons by (simp only: requested_redirect_Some)
qed

lemma render_try_static:
  assumes "strip_trailing_slash pth = ''/react-website-base''"
    and "generateOuterHtml env opts pth init pcv (Some False) [] = Inr (before_content, after_content)"
  shows "render_try env stgs opts init pcv pth =
     (Inr (ContentResult
        \<lparr>route = ''/react-website-base'', status = 200,
         content = createStringStream (before_content @ after_content),
         time = None, cookies = []\<rparr>), [])"
  using assms by (simp add: render_try_def)

lemma render_try_page:
  assumes "strip_trailing_slash pth \<noteq> ''/react-website-base''"
    and "reduxRender env (parameters init) (routes stgs) = Inr r"
    and "rendered.redirect r = None"
    and "generateOuterHtml env opts pth init pcv (renderContent opts) (meta r) =
           Inr (before_content, after_content)"
  shows "render_try env stgs opts init pcv pth =
     (Inr (ContentResult
        \<lparr>route = rendered.route r, status = rendered.status r,
         content = combineStreams
           (if renderContent opts \<noteq> Some False
            then [createStringStream before_content,
                  renderToNodeStream
                    (createElement (container stgs) (containerProps r) (rendered.content r)),
                  createStringStream after_content]
            else [createStringStream before_content, createStringStream after_content]),
         time = Some (AList.update ''initialize'' (initializeTimer env) (rendered.time r)),
         cookies = initialized.cookies init\<rparr>),
      Called_reduxRender #
        (if renderContent opts \<noteq> Some False
         then [Called_renderToNodeStream
                 (createElement (container stgs) (containerProps r) (rendered.content r))]
         else []))"
  using assms by (simp add: render_try_def Let_def array_splice_def)

lemma render_try_rejected:
  assumes "strip_trailing_slash pth \<noteq> ''/react-website-base''"
    and "reduxRender env (parameters init) (routes stgs) = Inl err"
  shows "render_try env stgs opts init pcv pth = (Inl err, [Called_reduxRender])"
  using assms by (simp add: render_try_def)

lemma render_try_redirect:
  assumes "strip_trailing_slash pth \<noteq> ''/react-website-base''"
    and "reduxRender env (parameters init) (routes stgs) = Inr r"
    and "rendered.redirect r = Some rdr"
  shows "render_try env stgs opts init pcv pth =
     (Inr (RedirectResult (normalizeRedirect env rdr (basename stgs))), [Called_reduxRender])"
  using assms by (simp add: render_try_def)

lemma render_catch_no_handler:
  "onError stgs = None \<Longrightarrow> render_catch env stgs init loc pth err = (Inl err, [])"
  by (simp add: render_catch_def)

lemma render_catch_handler:
  assumes "onError stgs = Some handler"
  shows "render_catch env stgs init loc pth err =
     ((case raises (handler err (make_onErrorParameters env init loc pth)) of
         Some thrown \<Rightarrow> Inl thrown
       | None \<Rightarrow>
           (case redirect_calls (handler err (make_onErrorParameters env init loc pth)) of
              [] \<Rightarrow> Inl err
            | to # tos \<Rightarrow>
                Inr (RedirectResult
                  (normalizeRedirect env (parseLocation env to) (basename stgs))))),
      [Called_onError err (make_onErrorParameters env init loc pth)])"
  using assms
  by (simp add: render_catch_def Let_def requested_redirect_Nil requested_redirect_Cons
      split: option.splits list.splits)

lemmas example_defs =
  example_parseLocation_def example_initialized_def example_rendered_def
  example_environment_def example_settings_def example_assets_def example_options_def
  static_options_def unconfigured_options_def static_unconfigured_options_def
  offline_environment_def
  rejecting_environment_def redirecting_environment_def timed_rendered_def
  timed_environment_def login_handler_def failing_handler_def silent_failing_handler_def
  handled_settings_def

lemmas render_defs =
  render_def initialize_state_def request_path_def protected_cookie_value_def
  render_try_def render_catch_def make_onErrorParameters_def requested_redirect_def
  onErrorParameters_redirect_def normalizeRedirect_def spec_getLocationUrl_def
  generateOuterHtml_def default_entries_def has_main_def normalize_modifier_def
  html_or_default_def preferred_locale_def strip_trailing_slash_def array_splice_def

lemma update_absent_key:
  "k \<notin> fst ` set al \<Longrightarrow> AList.update k v al = al @ [(k, v)]"
  by (induction al) auto

lemma example_normalize:
  "normalizeSettings example_environment stgs = Inr stgs"
  "normalizeSettings offline_environment stgs = Inr stgs"
  "normalizeSettings rejecting_environment stgs = Inr stgs"
  "normalizeSettings redirecting_environment stgs = Inr stgs"
  "normalizeSettings timed_environment stgs = Inr stgs"
  by (simp_all add: example_defs)

lemma example_initialize:
  "initialize_state example_environment stgs opts = Inr example_initialized"
  "initialize_state rejecting_environment stgs opts = Inr example_initialized"
  "initialize_state redirecting_environment stgs opts = Inr example_initialized"
  "initialize_state timed_environment stgs opts = Inr example_initialized"
  by (simp_all add: initialize_state_def example_defs)

section \<open>The claims\<close>

text \<open>
  In the theorems below, \<open>stgs\<close> is the normalized settings object, \<open>init\<close> what the
  state initializer resolved to, and \<open>request_path env opts\<close> the \<open>pathname\<close> of the parsed
  request URL. The first component of \<open>render env raw opts\<close> is the outcome of the
  promise (left: rejected with that value; right: resolved to that result), the second
  the calls made to the page renderer, to \<open>ReactDOM.renderToNodeStream\<close> and to the error
  handler.
\<close>

text \<open>
  C1. When the path is not the reserved static-export path, the page renderer resolves
  without a redirect, \<open>renderContent\<close> is not \<open>false\<close> and the outer HTML is generated (the
  fragments \<open>before_content\<close> and \<open>after_content\<close>), the render call resolves to a content
  result whose stream is the combination of exactly three streams in this order: the
  before-content fragment, the stream of the page element (the container applied to the
  container properties and the rendered content), the after-content fragment. The page
  stream is spliced in at index 1. Read to its end, the stream yields the first fragment,
  then the markup of the page element, then the second fragment.
\<close>

theorem render_content_stream_order:
  assumes norm: "normalizeSettings env raw = Inr stgs"
    and init: "initialize_state env stgs opts = Inr init"
    and pth: "strip_trailing_slash (request_path env opts) \<noteq> ''/react-website-base''"
    and page: "reduxRender env (parameters init) (routes stgs) = Inr r"
    and nored: "rendered.redirect r = None"
    and rc: "renderContent opts \<noteq> Some False"
    and outer: "generateOuterHtml env opts (request_path env opts) init
                  (protected_cookie_value stgs (options.cookies opts)) (renderContent opts) (meta r)
                = Inr (before_content, after_content)"
  shows "\<exists>res. fst (render env raw opts) = Inr (ContentResult res) \<and>
           content res =
             combineStreams
               [createStringStream before_content,
                renderToNodeStream
                  (createElement (container stgs) (containerProps r) (rendered.content r)),
                createStringStream after_content] \<and>
           stream_text markup (content res) =
             before_content
               @ markup (createElement (container stgs) (containerProps r) (rendered.content r))
               @ after_content"
proof -
  have "render_try env stgs opts init (protected_cookie_value stgs (options.cookies opts))
          (request_path env opts) =
        (Inr (ContentResult
           \<lparr>route = rendered.route r, status = rendered.status r,
            content = combineStreams
               [createStringStream before_content,
                renderToNodeStream
                  (createElement (container stgs) (containerProps r) (rendered.content r)),
                createStringStream after_content],
            time = Some (AList.update ''initialize'' (initializeTimer env) (rendered.time r)),
            cookies = initialized.cookies init\<rparr>),
         [Called_reduxRender,
          Called_renderToNodeStream
            (createElement (container stgs) (containerProps r) (rendered.content r))])"
    using render_try_page [OF pth page nored outer] rc by simp
  then show ?thesis
    by (simp add: render_initialized [OF norm init])
qed

theorem render_content_stream_order_witness:
  "\<exists>res. fst (render example_environment example_settings example_options)
            = Inr (ContentResult res) \<and>
         content res =
           combineStreams
             [createStringStream ''<head>title=Items</head>'',
              renderToNodeStream (createElement ''Container'' ''props'' ''Items''),
              createStringStream ''<script>state</script>''] \<and>
         stream_text (\<lambda>e. ''<div>Items</div>'') (content res) =
           ''<head>title=Items</head><div>Items</div><script>state</script>''"
proof -
  have pth: "strip_trailing_slash (request_path example_environment example_options)
      \<noteq> ''/react-website-base''"
    by (simp add: render_defs example_defs)
  have page: "reduxRender example_environment (parameters example_initialized)
      (routes example_settings) = Inr example_rendered"
    by (simp add: example_defs)
  have nored: "rendered.redirect example_rendered = None"
    by (simp add: example_defs)
  have rc: "renderContent example_options \<noteq> Some False"
    by (simp add: example_defs)
  have outer: "generateOuterHtml example_environment example_options
      (request_path example_environment example_options) example_initialized
      (protected_cookie_value example_settings (options.cookies example_options))
      (renderContent example_options) (meta example_rendered)
      = Inr (''<head>title=Items</head>'', ''<script>state</script>'')"
    by (simp add: render_defs example_defs)
  show ?thesis
    using render_content_stream_order [OF example_normalize(1) example_initialize(1) pth page
        nored rc outer, of "\<lambda>e. ''<div>Items</div>''"]
    by (simp add: example_defs)
qed

text \<open>
  C2, as amended. When the settings are normalized, the state initializer resolves, the
  pathname with one trailing slash removed is \<open>/react-website-base\<close> (so the pathname is
  that string, with or without a slash at its end) and the generation of the outer HTML
  does not throw (the resolved assets have \<open>entries\<close> or a main script), the render call
  resolves to a content result with status 200 whose stream is the string stream of the
  before-content fragment followed by the after-content fragment. Neither the page
  renderer nor \<open>renderToNodeStream\<close> is called (the list of calls is empty), and the
  after-content fragment was generated with \<open>contentNotRendered\<close> true, whatever the
  \<open>renderContent\<close> option was.
\<close>

theorem render_static_shell:
  assumes norm: "normalizeSettings env raw = Inr stgs"
    and init: "initialize_state env stgs opts = Inr init"
    and pth: "strip_trailing_slash (request_path env opts) = ''/react-website-base''"
    and outer: "generateOuterHtml env opts (request_path env opts) init
                  (protected_cookie_value stgs (options.cookies opts)) (Some False) []
                = Inr (before_content, after_content)"
  shows "(request_path env opts = ''/react-website-base'' \<or>
          request_path env opts = ''/react-website-base/'') \<and>
         (entries (normalize_modifier (request_path env opts) (parameters init) (assets opts))
            \<noteq> None \<or>
          has_main (normalize_modifier (request_path env opts) (parameters init) (assets opts))) \<and>
         (\<exists>res. render env raw opts = (Inr (ContentResult res), []) \<and>
           status res = 200 \<and>
           content res = createStringStream (before_content @ after_content) \<and>
           stream_text markup (content res) = before_content @ after_content \<and>
           (\<exists>as. after_content =
              render_after_content env (generateJavascript init) as
                (preferred_locale (locales opts))
                (normalize_modifier (request_path env opts) (parameters init)
                   (bodyEnd (html_or_default (html opts))))
                (protected_cookie_value stgs (options.cookies opts)) True))"
proof -
  have "\<exists>as. after_content =
          render_after_content env (generateJavascript init) as
            (preferred_locale (locales opts))
            (normalize_modifier (request_path env opts) (parameters init)
               (bodyEnd (html_or_default (html opts))))
            (protected_cookie_value stgs (options.cookies opts)) True"
    using outer by (auto simp: generateOuterHtml_eq split: sum.splits)
  moreover have "entries (normalize_modifier (request_path env opts) (parameters init)
        (assets opts)) \<noteq> None \<or>
      has_main (normalize_modifier (request_path env opts) (parameters init) (assets opts))"
    using outer
    by (auto simp: generateOuterHtml_eq default_entries_def split: sum.splits option.splits
        if_splits)
  ultimately show ?thesis
    using pth
    by (simp add: render_initialized [OF norm init] render_try_static [OF pth outer]
        strip_trailing_slash_base)
qed

theorem render_static_shell_witness:
  "\<exists>res. render example_environment example_settings static_options
            = (Inr (ContentResult res), []) \<and>
         status res = 200 \<and>
         content res = createStringStream ''<head></head><script>state</script>-'' \<and>
         stream_text (\<lambda>e. ''<div>Items</div>'') (content res)
           = ''<head></head><script>state</script>-''"
proof -
  have pth: "strip_trailing_slash (request_path example_environment static_options)
      = ''/react-website-base''"
    by (simp add: render_defs example_defs)
  have outer: "generateOuterHtml example_environment static_options
      (request_path example_environment static_options) example_initialized
      (protected_cookie_value example_settings (options.cookies static_options))
      (Some False) [] = Inr (''<head></head>'', ''<script>state</script>-'')"
    by (simp add: render_defs example_defs)
  show ?thesis
    using render_static_shell [OF example_normalize(1) example_initialize(1) pth outer,
        of "\<lambda>e. ''<div>Items</div>''"]
    by auto
qed

text \<open>
  The claim as stated promises the content result to every call on the reserved path.
  With assets that have neither \<open>entries\<close> nor a main script the generation of line 133
  throws: without an error handler the render call rejects with the configuration error,
  and with \<open>login_handler\<close> it resolves to a redirect.
\<close>

theorem render_static_shell_counterexample:
  "strip_trailing_slash (request_path example_environment static_unconfigured_options)
     = ''/react-website-base'' \<and>
   initialize_state example_environment example_settings static_unconfigured_options
     = Inr example_initialized \<and>
   render example_environment example_settings static_unconfigured_options
     = (Inl (Error entries_required), []) \<and>
   fst (render example_environment (handled_settings login_handler)
          static_unconfigured_options)
     = Inr (RedirectResult ''/app/login'')"
  by (simp add: render_defs example_defs)

text \<open>
  C3. When the state initializer rejects with \<open>E\<close>, the render call rejects with the same
  \<open>E\<close> and no collaborator of the protected region is called; in particular the error
  handler is not, whatever \<open>onError\<close> the settings hold.
\<close>

theorem initializer_rejection_propagates:
  assumes norm: "normalizeSettings env raw = Inr stgs"
    and rejected: "initialize_state env stgs opts = Inl E"
  shows "render env raw opts = (Inl E, [])"
  using assms by (simp add: render_def)

theorem initializer_rejection_propagates_witness:
  "render offline_environment (handled_settings login_handler) example_options
     = (Inl (Error ''NetworkError''), [])"
proof -
  have rejected: "initialize_state offline_environment (handled_settings login_handler)
      example_options = Inl (Error ''NetworkError'')"
    by (simp add: initialize_state_def example_defs)
  show ?thesis
    using initializer_rejection_propagates [OF example_normalize(2) rejected] .
qed

text \<open>
  C4, as amended. When the page renderer rejects with \<open>E\<close> and an error handler is
  configured, the handler is called once with \<open>E\<close>. If the handler returns normally, the
  render call resolves to a redirect result for the first target the handler passed to
  \<open>redirect\<close>, normalized with the basename, and rejects with \<open>E\<close> itself if the handler
  passed none. If the handler throws, the render call rejects with what the handler
  threw, whether or not the handler had asked for a redirect.
\<close>

theorem page_render_error_handler:
  assumes norm: "normalizeSettings env raw = Inr stgs"
    and init: "initialize_state env stgs opts = Inr init"
    and pth: "strip_trailing_slash (request_path env opts) \<noteq> ''/react-website-base''"
    and rejected: "reduxRender env (parameters init) (routes stgs) = Inl E"
    and handler: "onError stgs = Some handler"
    and run: "handler E (make_onErrorParameters env init (parseLocation env (options.url opts))
                (request_path env opts)) = run"
  shows "render env raw opts =
     ((case raises run of
         Some thrown \<Rightarrow> Inl thrown
       | None \<Rightarrow>
           (case redirect_calls run of
              [] \<Rightarrow> Inl E
            | to # tos \<Rightarrow>
                Inr (RedirectResult
                  (normalizeRedirect env (parseLocation env to) (basename stgs))))),
      [Called_reduxRender,
       Called_onError E (make_onErrorParameters env init (parseLocation env (options.url opts))
         (request_path env opts))])"
  unfolding run [symmetric]
  by (simp add: render_initialized [OF norm init] render_try_rejected [OF pth rejected]
      render_catch_handler [OF handler])

theorem page_render_error_handler_witness:
  "render rejecting_environment (handled_settings login_handler) example_options =
     (Inr (RedirectResult ''/app/login''),
      [Called_reduxRender,
       Called_onError (Error ''render failed'')
         \<lparr>server = True, path = ''/items'', url = ''/items?page=2'', getState = ''getState''\<rparr>])"
proof -
  have pth: "strip_trailing_slash (request_path rejecting_environment example_options)
      \<noteq> ''/react-website-base''"
    by (simp add: render_defs example_defs)
  have rejected: "reduxRender rejecting_environment (parameters example_initialized)
      (routes (handled_settings login_handler)) = Inl (Error ''render failed'')"
    by (simp add: example_defs)
  have handler: "onError (handled_settings login_handler) = Some login_handler"
    by (simp add: example_defs)
  have run: "login_handler (Error ''render failed'')
      (make_onErrorParameters rejecting_environment example_initialized
         (parseLocation rejecting_environment (options.url example_options))
         (request_path rejecting_environment example_options))
      = \<lparr>redirect_calls = [''/login'', ''/error''], raises = None\<rparr>"
    by (simp add: login_handler_def)
  show ?thesis
    using page_render_error_handler [OF example_normalize(3) example_initialize(2) pth rejected
        handler run]
    by (simp add: render_defs example_defs)
qed

text \<open>
  The claim as stated does not hold for a handler that throws: \<open>failing_handler\<close> asks for
  a redirect to \<open>/login\<close> and then throws, and the render call rejects with the handler's
  error instead of resolving to a redirect; \<open>silent_failing_handler\<close> asks for no redirect
  and throws, and the render call rejects with the handler's error, not with the page
  renderer's.
\<close>

theorem page_render_error_handler_counterexample:
  "reduxRender rejecting_environment (parameters example_initialized)
     (routes (handled_settings failing_handler)) = Inl (Error ''render failed'') \<and>
   onError (handled_settings failing_handler) = Some failing_handler \<and>
   redirect_calls (failing_handler (Error ''render failed'')
     (make_onErrorParameters rejecting_environment example_initialized
        (parseLocation rejecting_environment (options.url example_options))
        (request_path rejecting_environment example_options))) = [''/login''] \<and>
   fst (render rejecting_environment (handled_settings failing_handler) example_options)
     = Inl (Error ''handler failed'') \<and>
   redirect_calls (silent_failing_handler (Error ''render failed'')
     (make_onErrorParameters rejecting_environment example_initialized
        (parseLocation rejecting_environment (options.url example_options))
        (request_path rejecting_environment example_options))) = [] \<and>
   fst (render rejecting_environment (handled_settings silent_failing_handler) example_options)
     = Inl (Error ''handler failed'')"
  by (simp add: render_defs example_defs)

text \<open>
  C5. During a call of the error handler, the first call of \<open>redirect\<close> records the
  parsed target, and a call made when a target is recorded changes nothing; so after the
  calls \<open>to # tos\<close> the recorded target is the parsed \<open>to\<close>, and when the handler returns
  the catch block resolves to the one redirect result for \<open>to\<close>.
\<close>

theorem only_first_redirect_takes_effect:
  assumes handler: "onError stgs = Some handler"
    and calls: "redirect_calls (handler err (make_onErrorParameters env init loc pth)) = to # tos"
    and returns: "raises (handler err (make_onErrorParameters env init loc pth)) = None"
  shows "onErrorParameters_redirect env to None = Some (parseLocation env to) \<and>
         onErrorParameters_redirect env to' (Some l) = Some l \<and>
         requested_redirect env (to # tos) = Some (parseLocation env to) \<and>
         fst (render_catch env stgs init loc pth err) =
           Inr (RedirectResult (normalizeRedirect env (parseLocation env to) (basename stgs)))"
  using calls returns
  by (simp add: onErrorParameters_redirect_def requested_redirect_Cons
      render_catch_handler [OF handler])

theorem only_first_redirect_takes_effect_witness:
  "onErrorParameters_redirect example_environment ''/login'' None
     = Some \<lparr>origin = None, pathname = ''/login'', query = []\<rparr> \<and>
   onErrorParameters_redirect example_environment ''/error''
       (Some \<lparr>origin = None, pathname = ''/login'', query = []\<rparr>)
     = Some \<lparr>origin = None, pathname = ''/login'', query = []\<rparr> \<and>
   requested_redirect example_environment [''/login'', ''/error'']
     = Some \<lparr>origin = None, pathname = ''/login'', query = []\<rparr> \<and>
   fst (render_catch example_environment (handled_settings login_handler) example_initialized
          \<lparr>origin = None, pathname = ''/items'', query = ''?page=2''\<rparr> ''/items''
          (Error ''render failed''))
     = Inr (RedirectResult ''/app/login'')"
proof -
  let ?ps = "make_onErrorParameters example_environment example_initialized
      \<lparr>origin = None, pathname = ''/items'', query = ''?page=2''\<rparr> ''/items''"
  have handler: "onError (handled_settings login_handler) = Some login_handler"
    by (simp add: example_defs)
  have calls: "redirect_calls (login_handler (Error ''render failed'') ?ps)
      = ''/login'' # [''/error'']"
    by (simp add: login_handler_def)
  have returns: "raises (login_handler (Error ''render failed'') ?ps) = None"
    by (simp add: login_handler_def)
  show ?thesis
    using only_first_redirect_takes_effect [OF handler calls returns, of "''/error''"
        "\<lparr>origin = None, pathname = ''/login'', query = []\<rparr>"]
    by (simp add: render_defs example_defs)
qed

text \<open>
  C6. When the resolved assets object has no \<open>entries\<close>: if \<open>assets.javascript.main\<close> is
  there (and truthy), the outer HTML is generated from the assets with \<open>entries\<close> set to
  \<open>['main']\<close>; otherwise the generation throws an \<open>Error\<close> whose message begins with
  \<open>"assets.entries[]" configuration parameter is required\<close>.
\<close>

theorem generateOuterHtml_default_entries:
  assumes absent: "entries (normalize_modifier pth (parameters init) (assets opts)) = None"
  shows "generateOuterHtml env opts pth init pcv rc mta =
     (if has_main (normalize_modifier pth (parameters init) (assets opts))
      then Inr
        (render_before_content env
           ((normalize_modifier pth (parameters init) (assets opts))\<lparr>entries := Some [''main'']\<rparr>)
           (preferred_locale (locales opts)) (concat (generateMetaTagsMarkup env mta))
           (normalize_modifier pth (parameters init) (head (html_or_default (html opts))))
           (normalize_modifier pth (parameters init) (bodyStart (html_or_default (html opts)))),
         render_after_content env (generateJavascript init)
           ((normalize_modifier pth (parameters init) (assets opts))\<lparr>entries := Some [''main'']\<rparr>)
           (preferred_locale (locales opts))
           (normalize_modifier pth (parameters init) (bodyEnd (html_or_default (html opts))))
           pcv (rc = Some False))
      else Inl (Error entries_required)) \<and>
     take 54 entries_required = ''\"assets.entries[]\" configuration parameter is required'' \<and>
     has_main (normalize_modifier pth (parameters init) (assets opts)) =
       (\<exists>js u. javascript (normalize_modifier pth (parameters init) (assets opts)) = Some js
          \<and> map_of js ''main'' = Some u \<and> u \<noteq> [])"
proof -
  have msg: "take 54 entries_required = ''\"assets.entries[]\" configuration parameter is required''"
    by (simp add: entries_required_def)
  have main: "has_main a = (\<exists>js u. javascript a = Some js \<and> map_of js ''main'' = Some u \<and> u \<noteq> [])"
    for a
    by (auto simp: has_main_def split: option.splits)
  show ?thesis
    using absent msg main by (simp add: generateOuterHtml_eq default_entries_def)
qed

theorem generateOuterHtml_default_entries_witness:
  "generateOuterHtml example_environment example_options ''/items'' example_initialized None None
     [(''title'', ''Items'')]
     = Inr (''<head>title=Items</head>'', ''<script>state</script>'') \<and>
   generateOuterHtml example_environment unconfigured_options ''/items'' example_initialized None
     None [(''title'', ''Items'')]
     = Inl (Error entries_required)"
proof -
  have absent: "entries (normalize_modifier ''/items'' (parameters example_initialized)
      (assets example_options)) = None"
    by (simp add: normalize_modifier_def example_defs)
  have absent': "entries (normalize_modifier ''/items'' (parameters example_initialized)
      (assets unconfigured_options)) = None"
    by (simp add: normalize_modifier_def example_defs)
  show ?thesis
    using generateOuterHtml_default_entries [OF absent, of example_environment None None
        "[(''title'', ''Items'')]"]
      generateOuterHtml_default_entries [OF absent', of example_environment None None
        "[(''title'', ''Items'')]"]
    by (simp add: render_defs example_defs)
qed

text \<open>
  C7, as amended. In a content result of a path that is not the reserved one, \<open>time\<close> is
  the page renderer's timing object with the key \<open>initialize\<close> set to the value read from
  the timer that was started before the initializer call. Every other key keeps the
  value the page renderer gave it, and when the page renderer gave no \<open>initialize\<close> key,
  its timing object is extended by that key at the end and is otherwise unchanged.
\<close>

theorem render_time_initialize:
  assumes norm: "normalizeSettings env raw = Inr stgs"
    and init: "initialize_state env stgs opts = Inr init"
    and pth: "strip_trailing_slash (request_path env opts) \<noteq> ''/react-website-base''"
    and page: "reduxRender env (parameters init) (routes stgs) = Inr r"
    and nored: "rendered.redirect r = None"
    and outer: "generateOuterHtml env opts (request_path env opts) init
                  (protected_cookie_value stgs (options.cookies opts)) (renderContent opts) (meta r)
                = Inr (before_content, after_content)"
  shows "\<exists>res tm. fst (render env raw opts) = Inr (ContentResult res) \<and>
           time res = Some tm \<and>
           tm = AList.update ''initialize'' (initializeTimer env) (rendered.time r) \<and>
           map_of tm ''initialize'' = Some (initializeTimer env) \<and>
           (\<forall>k. k \<noteq> ''initialize'' \<longrightarrow> map_of tm k = map_of (rendered.time r) k) \<and>
           (''initialize'' \<notin> fst ` set (rendered.time r) \<longrightarrow>
              tm = rendered.time r @ [(''initialize'', initializeTimer env)])"
  by (simp add: render_initialized [OF norm init] render_try_page [OF pth page nored outer]
      update_conv' update_absent_key)

theorem render_time_initialize_witness:
  "\<exists>res tm. fst (render example_environment example_settings example_options)
            = Inr (ContentResult res) \<and>
         time res = Some tm \<and>
         tm = [(''preload'', 3), (''initialize'', 7)] \<and>
         map_of tm ''initialize'' = Some 7 \<and>
         map_of tm ''preload'' = Some 3"
proof -
  have pth: "strip_trailing_slash (request_path example_environment example_options)
      \<noteq> ''/react-website-base''"
    by (simp add: render_defs example_defs)
  have page: "reduxRender example_environment (parameters example_initialized)
      (routes example_settings) = Inr example_rendered"
    by (simp add: example_defs)
  have nored: "rendered.redirect example_rendered = None"
    by (simp add: example_defs)
  have outer: "generateOuterHtml example_environment example_options
      (request_path example_environment example_options) example_initialized
      (protected_cookie_value example_settings (options.cookies example_options))
      (renderContent example_options) (meta example_rendered)
      = Inr (''<head>title=Items</head>'', ''<script>state</script>'')"
    by (simp add: render_defs example_defs)
  show ?thesis
    using render_time_initialize [OF example_normalize(1) example_initialize(1) pth page nored
        outer]
    by (auto simp: example_defs)
qed

text \<open>
  The claim as stated says that no timing field of the page renderer is overwritten. A
  page renderer whose timing object has a key \<open>initialize\<close> (here with the value 5) loses
  that value: the result holds the measured 7 under the key.
\<close>

theorem render_time_initialize_counterexample:
  "reduxRender timed_environment (parameters example_initialized) (routes example_settings)
     = Inr timed_rendered \<and>
   map_of (rendered.time timed_rendered) ''initialize'' = Some 5 \<and>
   fst (render timed_environment example_settings example_options) =
     Inr (ContentResult
       \<lparr>route = ''/items'', status = 200,
        content = combineStreams
          [createStringStream ''<head>title=Items</head>'',
           renderToNodeStream (createElement ''Container'' ''props'' ''Items''),
           createStringStream ''<script>state</script>''],
        time = Some [(''initialize'', 7)],
        cookies = [''session=1'']\<rparr>)"
  by (simp add: render_defs example_defs Let_def)

text \<open>
  C8. With \<open>getLocationUrl\<close> as the spec describes it. When the page renderer resolves with
  a redirect descriptor, the render call resolves to the redirect result
  \<open>normalizeRedirect\<close> of that descriptor and the configured basename, and nothing else is
  called. When the protected region throws \<open>err\<close>, and the configured handler, called with
  \<open>err\<close>, returns after asking for the redirects \<open>to # tos\<close>, the render call resolves to
  the redirect result \<open>normalizeRedirect\<close> of the parsed \<open>to\<close> and the basename. Every
  redirect result of the render call arises in one of these two ways. \<open>normalizeRedirect\<close>
  is a function of the target and the basename: the serialized target, with the basename
  put in front of it when the target has no origin; the basename \<open>/app\<close> and the target
  \<open>/foo\<close> give \<open>/app/foo\<close>.
\<close>

theorem redirect_result_serialized:
  assumes url: "getLocationUrl env = spec_getLocationUrl"
    and norm: "normalizeSettings env raw = Inr stgs"
  shows "(initialize_state env stgs opts = Inr init \<and>
          strip_trailing_slash (request_path env opts) \<noteq> ''/react-website-base'' \<and>
          reduxRender env (parameters init) (routes stgs) = Inr r \<and>
          rendered.redirect r = Some target
          \<longrightarrow> render env raw opts =
                (Inr (RedirectResult (normalizeRedirect env target (basename stgs))),
                 [Called_reduxRender])) \<and>
         (initialize_state env stgs opts = Inr init \<and>
          render_try env stgs opts init (protected_cookie_value stgs (options.cookies opts))
            (request_path env opts) = (Inl err, evs) \<and>
          onError stgs = Some handler \<and>
          raises (handler err (make_onErrorParameters env init
             (parseLocation env (options.url opts)) (request_path env opts))) = None \<and>
          redirect_calls (handler err (make_onErrorParameters env init
             (parseLocation env (options.url opts)) (request_path env opts))) = to # tos
          \<longrightarrow> render env raw opts =
                (Inr (RedirectResult
                   (normalizeRedirect env (parseLocation env to) (basename stgs))),
                 evs @ [Called_onError err (make_onErrorParameters env init
                    (parseLocation env (options.url opts)) (request_path env opts))])) \<and>
         (fst (render env raw opts) = Inr (RedirectResult s)
          \<longrightarrow> (\<exists>ini tg. initialize_state env stgs opts = Inr ini \<and>
                 s = normalizeRedirect env tg (basename stgs) \<and>
                 ((strip_trailing_slash (request_path env opts) \<noteq> ''/react-website-base'' \<and>
                   (\<exists>r'. reduxRender env (parameters ini) (routes stgs) = Inr r' \<and>
                      rendered.redirect r' = Some tg)) \<or>
                  (\<exists>h e es t ts.
                      render_try env stgs opts ini
                        (protected_cookie_value stgs (options.cookies opts))
                        (request_path env opts) = (Inl e, es) \<and>
                      onError stgs = Some h \<and>
                      raises (h e (make_onErrorParameters env ini
                         (parseLocation env (options.url opts)) (request_path env opts))) = None \<and>
                      redirect_calls (h e (make_onErrorParameters env ini
                         (parseLocation env (options.url opts)) (request_path env opts)))
                        = t # ts \<and>
                      tg = parseLocation env t)))) \<and>
         normalizeRedirect env loc bn =
           (case origin loc of
              Some og \<Rightarrow> og
            | None \<Rightarrow> (case bn of None \<Rightarrow> [] | Some b \<Rightarrow> b))
           @ pathname loc @ query loc \<and>
         normalizeRedirect env \<lparr>origin = None, pathname = ''/foo'', query = []\<rparr> (Some ''/app'')
           = ''/app/foo''"
proof (intro conjI impI)
  assume a: "initialize_state env stgs opts = Inr init \<and>
          strip_trailing_slash (request_path env opts) \<noteq> ''/react-website-base'' \<and>
          reduxRender env (parameters init) (routes stgs) = Inr r \<and>
          rendered.redirect r = Some target"
  then have init: "initialize_state env stgs opts = Inr init"
    and pth: "strip_trailing_slash (request_path env opts) \<noteq> ''/react-website-base''"
    and page: "reduxRender env (parameters init) (routes stgs) = Inr r"
    and rdr: "rendered.redirect r = Some target"
    by simp_all
  show "render env raw opts =
      (Inr (RedirectResult (normalizeRedirect env target (basename stgs))), [Called_reduxRender])"
    by (simp add: render_initialized [OF norm init] render_try_redirect [OF pth page rdr])
next
  let ?ps = "make_onErrorParameters env init (parseLocation env (options.url opts))
      (request_path env opts)"
  assume a: "initialize_state env stgs opts = Inr init \<and>
          render_try env stgs opts init (protected_cookie_value stgs (options.cookies opts))
            (request_path env opts) = (Inl err, evs) \<and>
          onError stgs = Some handler \<and>
          raises (handler err ?ps) = None \<and>
          redirect_calls (handler err ?ps) = to # tos"
  then have init: "initialize_state env stgs opts = Inr init"
    and t: "render_try env stgs opts init (protected_cookie_value stgs (options.cookies opts))
            (request_path env opts) = (Inl err, evs)"
    and h: "onError stgs = Some handler"
    and returns: "raises (handler err ?ps) = None"
    and calls: "redirect_calls (handler err ?ps) = to # tos"
    by simp_all
  show "render env raw opts =
      (Inr (RedirectResult (normalizeRedirect env (parseLocation env to) (basename stgs))),
       evs @ [Called_onError err ?ps])"
    by (simp add: render_initialized [OF norm init] t render_catch_handler [OF h] returns calls)
next
  assume res: "fst (render env raw opts) = Inr (RedirectResult s)"
  obtain init where init: "initialize_state env stgs opts = Inr init"
    using res norm by (cases "initialize_state env stgs opts") (simp_all add: render_def)
  let ?pcv = "protected_cookie_value stgs (options.cookies opts)"
  let ?pth = "request_path env opts"
  let ?loc = "parseLocation env (options.url opts)"
  let ?ps = "make_onErrorParameters env init ?loc ?pth"
  obtain out evs where t: "render_try env stgs opts init ?pcv ?pth = (out, evs)"
    by (cases "render_try env stgs opts init ?pcv ?pth")
  have "\<exists>tg. s = normalizeRedirect env tg (basename stgs) \<and>
          ((strip_trailing_slash ?pth \<noteq> ''/react-website-base'' \<and>
            (\<exists>r'. reduxRender env (parameters init) (routes stgs) = Inr r' \<and>
               rendered.redirect r' = Some tg)) \<or>
           (\<exists>h e es t ts.
               render_try env stgs opts init ?pcv ?pth = (Inl e, es) \<and>
               onError stgs = Some h \<and>
               raises (h e ?ps) = None \<and>
               redirect_calls (h e ?ps) = t # ts \<and>
               tg = parseLocation env t))"
  proof (cases out)
    case (Inr v)
    with t res have v: "v = RedirectResult s"
      by (simp add: render_initialized [OF norm init])
    from t Inr v show ?thesis
      by (auto simp: render_try_def Let_def split: if_splits sum.splits option.splits prod.splits)
  next
    case (Inl e)
    with t res have c: "fst (render_catch env stgs init ?loc ?pth e) = Inr (RedirectResult s)"
      by (simp add: render_initialized [OF norm init] split: prod.splits)
    then obtain h where h: "onError stgs = Some h"
      by (cases "onError stgs") (simp_all add: render_catch_def)
    from c have returns: "raises (h e ?ps) = None"
      by (auto simp: render_catch_handler [OF h] split: option.splits)
    from c obtain t' ts
      where calls: "redirect_calls (h e ?ps) = t' # ts"
        and s: "s = normalizeRedirect env (parseLocation env t') (basename stgs)"
      by (auto simp: render_catch_handler [OF h] split: option.splits list.splits)
    from t Inl have t': "render_try env stgs opts init ?pcv ?pth = (Inl e, evs)" by simp
    show ?thesis using h calls s returns t' by blast
  qed
  with init show "\<exists>ini tg. initialize_state env stgs opts = Inr ini \<and>
                 s = normalizeRedirect env tg (basename stgs) \<and>
                 ((strip_trailing_slash (request_path env opts) \<noteq> ''/react-website-base'' \<and>
                   (\<exists>r'. reduxRender env (parameters ini) (routes stgs) = Inr r' \<and>
                      rendered.redirect r' = Some tg)) \<or>
                  (\<exists>h e es t ts.
                      render_try env stgs opts ini
                        (protected_cookie_value stgs (options.cookies opts))
                        (request_path env opts) = (Inl e, es) \<and>
                      onError stgs = Some h \<and>
                      raises (h e (make_onErrorParameters env ini
                         (parseLocation env (options.url opts)) (request_path env opts))) = None \<and>
                      redirect_calls (h e (make_onErrorParameters env ini
                         (parseLocation env (options.url opts)) (request_path env opts)))
                        = t # ts \<and>
                      tg = parseLocation env t))"
    by blast
next
  show "normalizeRedirect env loc bn =
           (case origin loc of
              Some og \<Rightarrow> og
            | None \<Rightarrow> (case bn of None \<Rightarrow> [] | Some b \<Rightarrow> b))
           @ pathname loc @ query loc"
    by (simp add: normalizeRedirect_def url spec_getLocationUrl_def split: option.splits)
next
  show "normalizeRedirect env \<lparr>origin = None, pathname = ''/foo'', query = []\<rparr> (Some ''/app'')
           = ''/app/foo''"
    by (simp add: normalizeRedirect_def url spec_getLocationUrl_def)
qed

theorem redirect_result_serialized_witness:
  "render redirecting_environment example_settings example_options
     = (Inr (RedirectResult ''/app/foo''), [Called_reduxRender]) \<and>
   render rejecting_environment (handled_settings login_handler) example_options
     = (Inr (RedirectResult ''/app/login''),
        [Called_reduxRender,
         Called_onError (Error ''render failed'')
           \<lparr>server = True, path = ''/items'', url = ''/items?page=2'',
            getState = ''getState''\<rparr>]) \<and>
   normalizeRedirect redirecting_environment
     \<lparr>origin = Some ''https://example.com'', pathname = ''/foo'', query = ''?a=1''\<rparr>
     (Some ''/app'') = ''https://example.com/foo?a=1'' \<and>
   normalizeRedirect redirecting_environment \<lparr>origin = None, pathname = ''/foo'', query = []\<rparr>
     (Some ''/app'') = ''/app/foo''"
proof -
  let ?target = "\<lparr>origin = None, pathname = ''/foo'', query = []\<rparr>"
  let ?r = "example_rendered\<lparr>redirect := Some ?target\<rparr>"
  let ?ps = "make_onErrorParameters rejecting_environment example_initialized
      (parseLocation rejecting_environment (options.url example_options))
      (request_path rejecting_environment example_options)"
  have url: "getLocationUrl redirecting_environment = spec_getLocationUrl"
    by (simp add: example_defs)
  have url': "getLocationUrl rejecting_environment = spec_getLocationUrl"
    by (simp add: example_defs)
  have page: "initialize_state redirecting_environment example_settings example_options
        = Inr example_initialized \<and>
      strip_trailing_slash (request_path redirecting_environment example_options)
        \<noteq> ''/react-website-base'' \<and>
      reduxRender redirecting_environment (parameters example_initialized)
        (routes example_settings) = Inr ?r \<and>
      rendered.redirect ?r = Some ?target"
    by (simp add: render_defs example_defs)
  have handled: "initialize_state rejecting_environment (handled_settings login_handler)
        example_options = Inr example_initialized \<and>
      render_try rejecting_environment (handled_settings login_handler) example_options
        example_initialized
        (protected_cookie_value (handled_settings login_handler)
           (options.cookies example_options))
        (request_path rejecting_environment example_options)
        = (Inl (Error ''render failed''), [Called_reduxRender]) \<and>
      onError (handled_settings login_handler) = Some login_handler \<and>
      raises (login_handler (Error ''render failed'') ?ps) = None \<and>
      redirect_calls (login_handler (Error ''render failed'') ?ps) = ''/login'' # [''/error'']"
    by (simp add: render_defs example_defs)
  note first = redirect_result_serialized [OF url example_normalize(4),
      where opts = example_options and init = example_initialized and r = ?r
        and target = ?target and loc = "\<lparr>origin = Some ''https://example.com'',
          pathname = ''/foo'', query = ''?a=1''\<rparr>" and bn = "Some ''/app''"]
  note second = redirect_result_serialized [OF url' example_normalize(3),
      where opts = example_options and init = example_initialized
        and err = "Error ''render failed''" and evs = "[Called_reduxRender]"
        and handler = login_handler and to = "''/login''" and tos = "[''/error'']"]
  from first page have a: "render redirecting_environment example_settings example_options
      = (Inr (RedirectResult (normalizeRedirect redirecting_environment ?target
           (basename example_settings))), [Called_reduxRender])"
    by blast
  from second handled have b: "render rejecting_environment (handled_settings login_handler)
      example_options
      = (Inr (RedirectResult (normalizeRedirect rejecting_environment
           (parseLocation rejecting_environment ''/login'')
           (basename (handled_settings login_handler)))),
         [Called_reduxRender] @ [Called_onError (Error ''render failed'') ?ps])"
    by blast
  from first have c: "normalizeRedirect redirecting_environment
      \<lparr>origin = Some ''https://example.com'', pathname = ''/foo'', query = ''?a=1''\<rparr>
      (Some ''/app'') = ''https://example.com/foo?a=1''"
    by simp
  from first have d: "normalizeRedirect redirecting_environment ?target (Some ''/app'')
      = ''/app/foo''"
    by blast
  have bn: "basename example_settings = Some ''/app''"
    "basename (handled_settings login_handler) = Some ''/app''"
    by (simp_all add: example_defs)
  have e: "normalizeRedirect rejecting_environment
      (parseLocation rejecting_environment ''/login'') (Some ''/app'') = ''/app/login''"
    using second by (simp add: example_defs)
  have ps: "?ps = \<lparr>server = True, path = ''/items'', url = ''/items?page=2'',
      getState = ''getState''\<rparr>"
    by (simp add: render_defs example_defs)
  from a b c d show ?thesis
    by (simp add: bn e ps)
qed

text \<open>
  C9, as amended. When the generation of the outer HTML is reached (on the reserved path,
  or after the page renderer resolved without a redirect) and throws the configuration
  error for assets with neither \<open>entries\<close> nor a main script, the error goes through the
  same catch block as any error of the protected region. Without a handler the render
  call rejects with the configuration error. A configured handler is called with it: if
  the handler returns, the render call resolves to the redirect the handler asked for
  first, or rejects with the configuration error if it asked for none; if the handler
  throws, the render call rejects with what the handler threw.
\<close>

theorem configuration_error_is_handled:
  assumes norm: "normalizeSettings env raw = Inr stgs"
    and init: "initialize_state env stgs opts = Inr init"
    and absent: "entries (normalize_modifier (request_path env opts) (parameters init) (assets opts))
                  = None"
    and no_main: "\<not> has_main (normalize_modifier (request_path env opts) (parameters init)
                    (assets opts))"
    and reached: "strip_trailing_slash (request_path env opts) = ''/react-website-base'' \<or>
                  (\<exists>r. reduxRender env (parameters init) (routes stgs) = Inr r \<and>
                       rendered.redirect r = None)"
  shows "fst (render env raw opts) =
           fst (render_catch env stgs init (parseLocation env (options.url opts))
                  (request_path env opts) (Error entries_required)) \<and>
         fst (render env raw opts) =
           (case onError stgs of
              None \<Rightarrow> Inl (Error entries_required)
            | Some handler \<Rightarrow>
                (case raises (handler (Error entries_required)
                        (make_onErrorParameters env init (parseLocation env (options.url opts))
                           (request_path env opts))) of
                   Some thrown \<Rightarrow> Inl thrown
                 | None \<Rightarrow>
                     (case redirect_calls (handler (Error entries_required)
                             (make_onErrorParameters env init
                                (parseLocation env (options.url opts)) (request_path env opts))) of
                        [] \<Rightarrow> Inl (Error entries_required)
                      | to # tos \<Rightarrow>
                          Inr (RedirectResult
                            (normalizeRedirect env (parseLocation env to) (basename stgs)))))) \<and>
         (Called_onError (Error entries_required)
            (make_onErrorParameters env init (parseLocation env (options.url opts))
               (request_path env opts))
            \<in> set (snd (render env raw opts))) = (onError stgs \<noteq> None)"
proof -
  let ?pcv = "protected_cookie_value stgs (options.cookies opts)"
  let ?pth = "request_path env opts"
  let ?loc = "parseLocation env (options.url opts)"
  have outer: "generateOuterHtml env opts ?pth init ?pcv rc mta = Inl (Error entries_required)"
    for rc mta
    using absent no_main by (simp add: generateOuterHtml_eq default_entries_def)
  have "\<exists>evs. render_try env stgs opts init ?pcv ?pth = (Inl (Error entries_required), evs) \<and>
          (evs = [] \<or> evs = [Called_reduxRender])"
  proof (cases "strip_trailing_slash ?pth = ''/react-website-base''")
    case True
    then show ?thesis by (simp add: render_try_def outer)
  next
    case False
    with reached obtain r where "reduxRender env (parameters init) (routes stgs) = Inr r"
      and "rendered.redirect r = None" by blast
    with False show ?thesis by (simp add: render_try_def outer)
  qed
  then obtain evs
    where t: "render_try env stgs opts init ?pcv ?pth = (Inl (Error entries_required), evs)"
      and evs: "evs = [] \<or> evs = [Called_reduxRender]"
    by blast
  have r: "render env raw opts =
      (case render_catch env stgs init ?loc ?pth (Error entries_required) of
         (out, evs') \<Rightarrow> (out, evs @ evs'))"
    by (simp add: render_initialized [OF norm init] t)
  show ?thesis
  proof (cases "onError stgs")
    case None
    then show ?thesis using evs by (auto simp: r render_catch_no_handler)
  next
    case (Some handler)
    then show ?thesis
      using evs by (auto simp: r render_catch_handler [OF Some] split: option.splits list.splits)
  qed
qed

theorem configuration_error_is_handled_witness:
  "fst (render example_environment (handled_settings login_handler) unconfigured_options)
     = Inr (RedirectResult ''/app/login'') \<and>
   fst (render example_environment example_settings unconfigured_options)
     = Inl (Error entries_required) \<and>
   Called_onError (Error entries_required)
     \<lparr>server = True, path = ''/items'', url = ''/items?page=2'', getState = ''getState''\<rparr>
     \<in> set (snd (render example_environment (handled_settings login_handler)
                    unconfigured_options))"
proof -
  have absent: "entries (normalize_modifier (request_path example_environment unconfigured_options)
      (parameters example_initialized) (assets unconfigured_options)) = None"
    by (simp add: render_defs example_defs)
  have no_main: "\<not> has_main (normalize_modifier
      (request_path example_environment unconfigured_options)
      (parameters example_initialized) (assets unconfigured_options))"
    by (simp add: render_defs example_defs)
  have page: "reduxRender example_environment (parameters example_initialized) rts
      = Inr example_rendered" for rts
    by (simp add: example_defs)
  have nored: "rendered.redirect example_rendered = None"
    by (simp add: example_defs)
  have reached: "strip_trailing_slash (request_path example_environment unconfigured_options)
        = ''/react-website-base'' \<or>
      (\<exists>r. reduxRender example_environment (parameters example_initialized) (routes stgs) = Inr r
         \<and> rendered.redirect r = None)" for stgs
    using page nored by blast
  show ?thesis
    using configuration_error_is_handled [OF example_normalize(1) example_initialize(1) absent
        no_main reached, of "handled_settings login_handler"]
      configuration_error_is_handled [OF example_normalize(1) example_initialize(1) absent
        no_main reached, of example_settings]
    by (simp add: render_defs example_defs)
qed

text \<open>
  The claim as stated lets the configuration error reach the caller whenever the handler
  asks for no redirect. \<open>silent_failing_handler\<close> asks for none and throws: the caller
  receives the handler's error, which is not the configuration error.
\<close>

theorem configuration_error_is_handled_counterexample:
  "generateOuterHtml example_environment unconfigured_options
     (request_path example_environment unconfigured_options) example_initialized
     (protected_cookie_value (handled_settings silent_failing_handler)
        (options.cookies unconfigured_options))
     (renderContent unconfigured_options) (meta example_rendered)
     = Inl (Error entries_required) \<and>
   onError (handled_settings silent_failing_handler) = Some silent_failing_handler \<and>
   redirect_calls (silent_failing_handler (Error entries_required)
     (make_onErrorParameters example_environment example_initialized
        (parseLocation example_environment (options.url unconfigured_options))
        (request_path example_environment unconfigured_options))) = [] \<and>
   fst (render example_environment (handled_settings silent_failing_handler)
          unconfigured_options)
     = Inl (Error ''handler failed'') \<and>
   Error ''handler failed'' \<noteq> (Error entries_required :: string error)"
  by (simp add: render_defs example_defs entries_required_def)

text \<open>
  C10. The content result of the static-shell branch has the empty list as \<open>cookies\<close>,
  whatever cookies the state initializer asked to set, and no \<open>time\<close> key; the content
  result of the other branch has the initializer's cookies and a \<open>time\<close> object.
\<close>

theorem static_shell_cookies_and_time:
  assumes norm: "normalizeSettings env raw = Inr stgs"
    and init: "initialize_state env stgs opts = Inr init"
  shows "(strip_trailing_slash (request_path env opts) = ''/react-website-base'' \<and>
          generateOuterHtml env opts (request_path env opts) init
            (protected_cookie_value stgs (options.cookies opts)) (Some False) []
            = Inr (before_content, after_content)
          \<longrightarrow> (\<exists>res. fst (render env raw opts) = Inr (ContentResult res) \<and>
                 cookies res = [] \<and> time res = None)) \<and>
         (strip_trailing_slash (request_path env opts) \<noteq> ''/react-website-base'' \<and>
          reduxRender env (parameters init) (routes stgs) = Inr r \<and>
          rendered.redirect r = None \<and>
          generateOuterHtml env opts (request_path env opts) init
            (protected_cookie_value stgs (options.cookies opts)) (renderContent opts) (meta r)
            = Inr (before_content, after_content)
          \<longrightarrow> (\<exists>res. fst (render env raw opts) = Inr (ContentResult res) \<and>
                 cookies res = initialized.cookies init \<and>
                 time res = Some (AList.update ''initialize'' (initializeTimer env)
                                    (rendered.time r))))"
proof (intro conjI impI)
  assume "strip_trailing_slash (request_path env opts) = ''/react-website-base'' \<and>
          generateOuterHtml env opts (request_path env opts) init
            (protected_cookie_value stgs (options.cookies opts)) (Some False) []
            = Inr (before_content, after_content)"
  then show "\<exists>res. fst (render env raw opts) = Inr (ContentResult res) \<and>
                 cookies res = [] \<and> time res = None"
    by (simp add: render_initialized [OF norm init] render_try_static)
next
  assume "strip_trailing_slash (request_path env opts) \<noteq> ''/react-website-base'' \<and>
          reduxRender env (parameters init) (routes stgs) = Inr r \<and>
          rendered.redirect r = None \<and>
          generateOuterHtml env opts (request_path env opts) init
            (protected_cookie_value stgs (options.cookies opts)) (renderContent opts) (meta r)
            = Inr (before_content, after_content)"
  then show "\<exists>res. fst (render env raw opts) = Inr (ContentResult res) \<and>
                 cookies res = initialized.cookies init \<and>
                 time res = Some (AList.update ''initialize'' (initializeTimer env)
                                    (rendered.time r))"
    by (simp add: render_initialized [OF norm init] render_try_page)
qed

theorem static_shell_cookies_and_time_witness:
  "(\<exists>res. fst (render example_environment example_settings static_options)
            = Inr (ContentResult res) \<and>
          cookies res = [] \<and> time res = None) \<and>
   initialized.cookies example_initialized = [''session=1''] \<and>
   (\<exists>res. fst (render example_environment example_settings example_options)
            = Inr (ContentResult res) \<and>
          cookies res = [''session=1''] \<and>
          time res = Some [(''preload'', 3), (''initialize'', 7)])"
proof -
  have pth: "strip_trailing_slash (request_path example_environment static_options)
      = ''/react-website-base'' \<and>
      generateOuterHtml example_environment static_options
        (request_path example_environment static_options) example_initialized
        (protected_cookie_value example_settings (options.cookies static_options))
        (Some False) [] = Inr (''<head></head>'', ''<script>state</script>-'')"
    by (simp add: render_defs example_defs)
  have page: "strip_trailing_slash (request_path example_environment example_options)
        \<noteq> ''/react-website-base'' \<and>
      reduxRender example_environment (parameters example_initialized)
        (routes example_settings) = Inr example_rendered \<and>
      rendered.redirect example_rendered = None \<and>
      generateOuterHtml example_environment example_options
        (request_path example_environment example_options) example_initialized
        (protected_cookie_value example_settings (options.cookies example_options))
        (renderContent example_options) (meta example_rendered)
        = Inr (''<head>title=Items</head>'', ''<script>state</script>'')"
    by (simp add: render_defs example_defs)
  have static: "\<exists>res. fst (render example_environment example_settings static_options)
            = Inr (ContentResult res) \<and> cookies res = [] \<and> time res = None"
    using static_shell_cookies_and_time [where env = example_environment
        and raw = example_settings and stgs = example_settings and opts = static_options
        and init = example_initialized and before_content = "''<head></head>''"
        and after_content = "''<script>state</script>-''",
        OF example_normalize(1) example_initialize(1)] pth
    by blast
  have normal: "\<exists>res. fst (render example_environment example_settings example_options)
            = Inr (ContentResult res) \<and>
          cookies res = initialized.cookies example_initialized \<and>
          time res = Some (AList.update ''initialize'' (initializeTimer example_environment)
                             (rendered.time example_rendered))"
    using static_shell_cookies_and_time [where env = example_environment
        and raw = example_settings and stgs = example_settings and opts = example_options
        and init = example_initialized and r = example_rendered
        and before_content = "''<head>title=Items</head>''"
        and after_content = "''<script>state</script>''",
        OF example_normalize(1) example_initialize(1)] page
    by blast
  from static normal show ?thesis
    by (simp add: example_defs)
qed

end
